theory Spec2Isabelle
  imports Main "HOL-Library.Word"
begin

section \<open>Batch iteration over a pair of tensors (nn/data.go)\<close>

text \<open>
  Go's \<^verbatim>\<open>int64\<close> is a 64-bit word read in two's complement: \<open>+\<close>, \<open>-\<close> and \<open>*\<close>
  wrap around, comparisons are the signed ones (\<open><s\<close>, \<open>\<le>s\<close>).
\<close>

type_synonym int64 = "64 word"

text \<open>
  The tensor type belongs to the tensor package. The iterator observes one thing of a
  tensor: the slice \<^verbatim>\<open>MustSize()\<close> returns. The payload is kept abstract.
\<close>

record 'a Tensor =
  MustSize :: "int64 list"
  payload :: 'a

text \<open>\<^verbatim>\<open>ts.NewNarrow(start, end)\<close>, and the tensor \<^verbatim>\<open>t.Idx(narrowIndex)\<close>, kept symbolic.\<close>

datatype narrow = NewNarrow int64 int64

datatype 'a indexed = Idx "'a Tensor" narrow

record 'a Iter2 =
  xs :: "'a Tensor"
  ys :: "'a Tensor"
  batchIndex :: int64
  batchSize :: int64
  totalSize :: int64
  device :: nat
  returnSmallLastBatch :: bool

record 'a Iter2Item =
  Images :: "'a indexed"
  Labels :: "'a indexed"

text \<open>
  What a call of \<^verbatim>\<open>NewIter2\<close> can do: panic (indexing an empty size slice with
  \<^verbatim>\<open>[0]\<close>), return the error, or return the iterator.
\<close>

datatype 'r outcome = Panic | Err | Ok 'r

text \<open>\<^verbatim>\<open>MustShallowClone\<close> returns a tensor sharing the storage: the same value here.\<close>

definition MustShallowClone :: "'a Tensor \<Rightarrow> 'a Tensor" where
  "MustShallowClone t = t"

text \<open>The zero value of the \<^verbatim>\<open>device\<close> field, which \<^verbatim>\<open>NewIter2\<close> does not set.\<close>

definition zero_device :: nat where
  "zero_device = 0"

definition NewIter2 :: "'a Tensor \<Rightarrow> 'a Tensor \<Rightarrow> int64 \<Rightarrow> 'a Iter2 outcome" where
  "NewIter2 xs0 ys0 bs =
     (case MustSize xs0 of
        [] \<Rightarrow> Panic
      | tsz # _ \<Rightarrow>
          (case MustSize ys0 of
             [] \<Rightarrow> Panic
           | y0 # _ \<Rightarrow>
               if y0 \<noteq> tsz then Err
               else Ok \<lparr> xs = MustShallowClone xs0, ys = MustShallowClone ys0,
                         batchIndex = 0, batchSize = bs, totalSize = tsz,
                         device = zero_device, returnSmallLastBatch = False \<rparr>))"

definition ReturnSmallLastBatch :: "'a Iter2 \<Rightarrow> 'a Iter2" where
  "ReturnSmallLastBatch it = it\<lparr>returnSmallLastBatch := True\<rparr>"

definition ToDevice :: "'a Iter2 \<Rightarrow> nat \<Rightarrow> 'a Iter2" where
  "ToDevice it d = it\<lparr>device := d\<rparr>"

text \<open>
  \<^verbatim>\<open>Next\<close> has a pointer receiver: it returns the item (\<open>None\<close> for \<^verbatim>\<open>ok = false\<close>)
  and the iterator as the call leaves it.
\<close>

definition Next :: "'a Iter2 \<Rightarrow> 'a Iter2Item option \<times> 'a Iter2" where
  "Next it =
     (let start = batchIndex it * batchSize it;
          size0 = (if totalSize it - start <s batchSize it
                   then totalSize it - start else batchSize it)
      in if size0 \<le>s 0 \<or> (\<not> returnSmallLastBatch it \<and> size0 <s batchSize it)
         then (None, it)
         else (Some \<lparr> Images = Idx (xs it) (NewNarrow start (start + size0)),
                       Labels = Idx (ys it) (NewNarrow start (start + size0)) \<rparr>,
               it\<lparr>batchIndex := batchIndex it + 1\<rparr>))"

text \<open>Calling \<^verbatim>\<open>Next\<close> \<open>n\<close> times in a row: the results in order, and the final iterator.\<close>

fun nexts :: "nat \<Rightarrow> 'a Iter2 \<Rightarrow> 'a Iter2Item option list \<times> 'a Iter2" where
  "nexts 0 it = ([], it)"
| "nexts (Suc n) it =
     (case Next it of (r, it') \<Rightarrow>
        (case nexts n it' of (rs, it'') \<Rightarrow> (r # rs, it'')))"

text \<open>
  Reading an iterator: the batch size and the total size as natural numbers, and the
  item whose two tensors are narrowed to the index range from \<open>s\<close> up to, not
  including, \<open>e\<close>.
\<close>

definition batch_len :: "'a Iter2 \<Rightarrow> nat" where
  "batch_len it = nat (sint (batchSize it))"

definition total_len :: "'a Iter2 \<Rightarrow> nat" where
  "total_len it = nat (sint (totalSize it))"

definition batch :: "'a Iter2 \<Rightarrow> nat \<Rightarrow> nat \<Rightarrow> 'a Iter2Item" where
  "batch it s e = \<lparr> Images = Idx (xs it) (NewNarrow (of_nat s) (of_nat e)),
                    Labels = Idx (ys it) (NewNarrow (of_nat s) (of_nat e)) \<rparr>"

text \<open>Two iterators for the worked examples: ten rows in batches of three.\<close>

definition ten_by_three :: "unit Iter2" where
  "ten_by_three =
     \<lparr> xs = \<lparr>MustSize = [10, 2], payload = ()\<rparr>, ys = \<lparr>MustSize = [10], payload = ()\<rparr>,
       batchIndex = 0, batchSize = 3, totalSize = 10, device = zero_device,
       returnSmallLastBatch = False \<rparr>"

section \<open>The variable store\<close>

text \<open>
  The registry, \<^verbatim>\<open>Path\<close>, \<^verbatim>\<open>Entry\<close>, \<^verbatim>\<open>Save\<close> and \<^verbatim>\<open>Load\<close> are tested by
  nn/varstore_test.go, but the file that defines them is not among the sources at hand.
  Every definition of this section is therefore written from the specification, and
  says so. The store is passed explicitly: an operation takes the store and returns the
  store as it leaves it. A tensor of the store is known by its handle, an index into the
  store's arena of tensors, so that the aliases callers hold can be followed across
  \<^verbatim>\<open>Load\<close>.
\<close>

text \<open>Modelled from the spec: the error taxonomy of section 7 (the variable store's source is missing).\<close>

datatype error = ValidationError | ShapeMismatchError | SerializationError | IOError

text \<open>
  Modelled from the spec: the element type tag of a tensor and its size in bytes
  (section 6; the tensor engine is missing). The specification names no tags; four
  common ones stand for them.
\<close>

datatype dtype = Uint8 | Int64 | Float | Double

fun size_of :: "dtype \<Rightarrow> nat" where
  "size_of Uint8 = 1"
| "size_of Int64 = 8"
| "size_of Float = 4"
| "size_of Double = 8"

type_synonym bytes = "8 word list"

text \<open>
  Modelled from the spec: a tensor as the store sees it through the engine interface of
  section 6 (\<^verbatim>\<open>Shape\<close>, \<^verbatim>\<open>Dtype\<close>, the device, the host-readable bytes) and the
  \<^verbatim>\<open>trainable\<close> flag of \<^verbatim>\<open>Summary\<close> (the tensor engine is missing).
\<close>

record var_tensor =
  shape :: "int list"
  kind :: dtype
  on_device :: nat
  trainable :: bool
  contents :: bytes

text \<open>Modelled from the spec: the archive record \<open>(name, dtype, shape, raw bytes)\<close> of section 3.\<close>

record archive_record =
  rec_name :: string
  rec_dtype :: dtype
  rec_shape :: "int list"
  rec_payload :: bytes

type_synonym archive = "archive_record list"

text \<open>
  Modelled from the spec: the \<^verbatim>\<open>VariableStore\<close> of section 3 (its source is missing): the
  device, and the ordered mapping from names to owned tensors, as a list of names with
  handles in insertion order and the arena the handles index.
\<close>

record VarStore =
  store_device :: nat
  registry :: "(string \<times> nat) list"
  arena :: "var_tensor list"

text \<open>Modelled from the spec: \<^verbatim>\<open>NewVariableStore(device)\<close>, an empty registry bound to the device.\<close>

definition NewVarStore :: "nat \<Rightarrow> VarStore" where
  "NewVarStore dev = \<lparr> store_device = dev, registry = [], arena = [] \<rparr>"

text \<open>
  Modelled from the spec: \<^verbatim>\<open>GetOrCreate(fullName, factory)\<close> of section 4.2 (its source is
  missing). If the name exists the existing tensor is returned and the factory is
  ignored; otherwise \<open>factory(device)\<close> allocates, the tensor is inserted at the end of
  the registry and returned. A factory that fails (ValidationError) fails the call and
  leaves the registry as it was (section 7).
\<close>

definition GetOrCreate ::
  "VarStore \<Rightarrow> string \<Rightarrow> (nat \<Rightarrow> error + var_tensor) \<Rightarrow> (error + nat) \<times> VarStore" where
  "GetOrCreate S fullName factory =
     (case map_of (registry S) fullName of
        Some h \<Rightarrow> (Inr h, S)
      | None \<Rightarrow>
          (case factory (store_device S) of
             Inl e \<Rightarrow> (Inl e, S)
           | Inr t \<Rightarrow>
               (Inr (length (arena S)),
                S\<lparr> registry := registry S @ [(fullName, length (arena S))],
                   arena := arena S @ [t] \<rparr>)))"

text \<open>Modelled from the spec: a run of \<^verbatim>\<open>GetOrCreate\<close> calls by one caller, results dropped.\<close>

fun GetOrCreate_all ::
  "VarStore \<Rightarrow> (string \<times> (nat \<Rightarrow> error + var_tensor)) list \<Rightarrow> VarStore" where
  "GetOrCreate_all S [] = S"
| "GetOrCreate_all S ((n, f) # reqs) = GetOrCreate_all (snd (GetOrCreate S n f)) reqs"

text \<open>
  Modelled from the spec: the tensor a name is bound to, with its handle; nothing for a
  name that is not in the registry.
\<close>

definition entry_of :: "VarStore \<Rightarrow> string \<Rightarrow> (nat \<times> var_tensor) option" where
  "entry_of S n =
     (case map_of (registry S) n of
        None \<Rightarrow> None
      | Some h \<Rightarrow> if h < length (arena S) then Some (h, arena S ! h) else None)"

definition names :: "VarStore \<Rightarrow> string list" where
  "names S = map fst (registry S)"

definition bytes_of :: "VarStore \<Rightarrow> string \<Rightarrow> bytes option" where
  "bytes_of S n = map_option (contents \<circ> snd) (entry_of S n)"

definition shape_of :: "VarStore \<Rightarrow> string \<Rightarrow> int list option" where
  "shape_of S n = map_option (shape \<circ> snd) (entry_of S n)"

text \<open>
  Modelled from the spec: the representation invariant of a store built by
  \<^verbatim>\<open>GetOrCreate\<close> (invariant 1 of section 3): a name maps to exactly one tensor, no
  tensor has two names, every handle is in the arena.
\<close>

definition wf_store :: "VarStore \<Rightarrow> bool" where
  "wf_store S \<longleftrightarrow>
     distinct (map fst (registry S)) \<and> distinct (map snd (registry S))
     \<and> list_all (\<lambda>e. snd e < length (arena S)) (registry S)"

text \<open>
  Modelled from the spec: \<^verbatim>\<open>Summary()\<close> of section 4.2, the sequence of
  \<open>(name, shape, trainable)\<close> in registry order, which does not mutate the registry: the
  store is returned as it was.
\<close>

definition Summary :: "VarStore \<Rightarrow> (string \<times> int list \<times> bool) list \<times> VarStore" where
  "Summary S =
     (concat (map (\<lambda>e. case entry_of S (fst e) of
                          None \<Rightarrow> []
                        | Some (h, t) \<Rightarrow> [(fst e, shape t, trainable t)]) (registry S)),
      S)"

subsection \<open>Paths and entries\<close>

text \<open>Modelled from the spec: the reserved separator of fully-qualified names (\<^verbatim>\<open>"a.b.t2"\<close>).\<close>

definition SEP :: char where
  "SEP = CHR ''.''"

text \<open>
  Modelled from the spec: \<^verbatim>\<open>Path\<close> of section 3, an immutable sequence of name segments.
  Its reference to the store is the store argument of the operations.
\<close>

record Path =
  segments :: "string list"

text \<open>Modelled from the spec: \<^verbatim>\<open>Entry\<close> of section 3, known by its fully-qualified name.\<close>

record Entry =
  fullName :: string

text \<open>Modelled from the spec: \<^verbatim>\<open>Root()\<close>, the path without segments.\<close>

definition Root :: Path where
  "Root = \<lparr> segments = [] \<rparr>"

text \<open>
  Modelled from the spec: \<^verbatim>\<open>Sub(name)\<close> of section 4.1 appends a validated segment and
  fails with ValidationError if the name contains the separator.
\<close>

definition Sub :: "Path \<Rightarrow> string \<Rightarrow> error + Path" where
  "Sub p name =
     (if SEP \<in> set name then Inl ValidationError
      else Inr (p\<lparr> segments := segments p @ [name] \<rparr>))"

text \<open>Modelled from the spec: segments joined by the separator (glossary, fully qualified name).\<close>

fun join :: "string list \<Rightarrow> string" where
  "join [] = []"
| "join [s] = s"
| "join (s # t # ss) = s @ SEP # join (t # ss)"

text \<open>
  Modelled from the spec: \<^verbatim>\<open>Entry(name)\<close> of section 4.1, a handle for
  \<open>join(segments, name)\<close> that allocates nothing; the separator is forbidden in the name
  (invariant 3 of section 3: enforced at \<^verbatim>\<open>Sub\<close> and \<^verbatim>\<open>Entry\<close> time).
\<close>

definition Path_Entry :: "Path \<Rightarrow> string \<Rightarrow> error + Entry" where
  "Path_Entry p name =
     (if SEP \<in> set name then Inl ValidationError
      else Inr \<lparr> fullName = join (segments p @ [name]) \<rparr>)"

text \<open>Modelled from the spec: a path whose segments were all validated.\<close>

definition valid_path :: "Path \<Rightarrow> bool" where
  "valid_path p \<longleftrightarrow> list_all (\<lambda>s. SEP \<notin> set s) (segments p)"

text \<open>
  Modelled from the spec: the engine's \<^verbatim>\<open>AllocateZeros\<close> and \<^verbatim>\<open>AllocateOnes\<close> (section 6)
  and the factories the initializers build from them; a shape dimension that is not
  positive is a ValidationError (section 4.2). The bytes of the value one are those of
  a little-endian machine.
\<close>

fun one_bytes :: "dtype \<Rightarrow> bytes" where
  "one_bytes Uint8 = [1]"
| "one_bytes Int64 = [1, 0, 0, 0, 0, 0, 0, 0]"
| "one_bytes Float = [0, 0, 128, 63]"
| "one_bytes Double = [0, 0, 0, 0, 0, 0, 240, 63]"

definition numel :: "int list \<Rightarrow> nat" where
  "numel sh = nat (prod_list sh)"

definition AllocateZeros :: "int list \<Rightarrow> dtype \<Rightarrow> nat \<Rightarrow> var_tensor" where
  "AllocateZeros sh dt dev =
     \<lparr> shape = sh, kind = dt, on_device = dev, trainable = True,
       contents = replicate (numel sh * size_of dt) 0 \<rparr>"

definition AllocateOnes :: "int list \<Rightarrow> dtype \<Rightarrow> nat \<Rightarrow> var_tensor" where
  "AllocateOnes sh dt dev =
     \<lparr> shape = sh, kind = dt, on_device = dev, trainable = True,
       contents = concat (replicate (numel sh) (one_bytes dt)) \<rparr>"

definition checked ::
  "(int list \<Rightarrow> dtype \<Rightarrow> nat \<Rightarrow> var_tensor) \<Rightarrow> int list \<Rightarrow> dtype \<Rightarrow> nat \<Rightarrow> error + var_tensor" where
  "checked alloc sh dt dev =
     (if list_all (\<lambda>d. 0 < d) sh then Inr (alloc sh dt dev) else Inl ValidationError)"

text \<open>
  Modelled from the spec: \<^verbatim>\<open>OrZeros(shape)\<close> and \<^verbatim>\<open>OrOnes(shape)\<close> of section 4.3, each
  a factory handed to \<^verbatim>\<open>GetOrCreate\<close>. The element type is a parameter: the
  specification does not fix the default.
\<close>

definition OrZeros :: "Entry \<Rightarrow> int list \<Rightarrow> dtype \<Rightarrow> VarStore \<Rightarrow> (error + nat) \<times> VarStore" where
  "OrZeros e sh dt S = GetOrCreate S (fullName e) (checked AllocateZeros sh dt)"

definition OrOnes :: "Entry \<Rightarrow> int list \<Rightarrow> dtype \<Rightarrow> VarStore \<Rightarrow> (error + nat) \<times> VarStore" where
  "OrOnes e sh dt S = GetOrCreate S (fullName e) (checked AllocateOnes sh dt)"

subsection \<open>The archive on the file system\<close>

text \<open>
  Modelled from the spec: the file system as far as \<^verbatim>\<open>Save\<close> and \<^verbatim>\<open>Load\<close> touch it: a
  path holds the records written to it so far. The byte format of an archive is not
  specified (section 6), so a file is the sequence of its records.
\<close>

type_synonym filesystem = "string \<rightharpoonup> archive"

text \<open>
  Modelled from the spec: what can go wrong outside the store during one \<^verbatim>\<open>Save\<close>
  (section 7): the engine cannot extract the bytes of a tensor (SerializationError), the
  write of the temporary file fails after some records, or the rename fails (IOError).
\<close>

record environment =
  readable :: "var_tensor \<Rightarrow> bool"
  write_fails_after :: "nat option"
  rename_fails :: bool

text \<open>Modelled from the spec: the engine's \<^verbatim>\<open>ToHostBytes\<close> (section 6), which may fail.\<close>

definition ToHostBytes :: "environment \<Rightarrow> var_tensor \<Rightarrow> bytes option" where
  "ToHostBytes env t = (if readable env t then Some (contents t) else None)"

text \<open>
  Modelled from the spec: the first half of \<^verbatim>\<open>Save\<close>: for every registry entry in
  insertion order, extract the bytes and append a record \<open>(name, dtype, shape, bytes)\<close>.
\<close>

fun collect :: "environment \<Rightarrow> VarStore \<Rightarrow> (string \<times> nat) list \<Rightarrow> error + archive" where
  "collect env S [] = Inr []"
| "collect env S (e # es) =
     (case entry_of S (fst e) of
        None \<Rightarrow> Inl SerializationError
      | Some (h, t) \<Rightarrow>
          (case ToHostBytes env t of
             None \<Rightarrow> Inl SerializationError
           | Some b \<Rightarrow>
               (case collect env S es of
                  Inl err \<Rightarrow> Inl err
                | Inr rs \<Rightarrow>
                    Inr (\<lparr> rec_name = fst e, rec_dtype = kind t, rec_shape = shape t,
                           rec_payload = b \<rparr> # rs))))"

text \<open>Modelled from the spec: the temporary file \<^verbatim>\<open>Save\<close> writes before the rename.\<close>

definition tmp_path :: "string \<Rightarrow> string" where
  "tmp_path path = path @ ''.tmp''"

text \<open>
  Modelled from the spec: \<^verbatim>\<open>Save(path)\<close> of section 4.2 (its source is missing). The
  result is the error, if any, and the file systems an observer can see, in order: the
  one before the call, the temporary file growing record by record, and the one the call
  leaves: the archive renamed into place on success, the temporary file removed on
  failure.
\<close>

definition Save ::
  "environment \<Rightarrow> VarStore \<Rightarrow> string \<Rightarrow> filesystem \<Rightarrow> error option \<times> filesystem list" where
  "Save env S path fs =
     (case collect env S (registry S) of
        Inl e \<Rightarrow> (Some e, [fs])
      | Inr recs \<Rightarrow>
          (let written = (case write_fails_after env of
                            None \<Rightarrow> length recs
                          | Some k \<Rightarrow> min k (length recs));
               writing = map (\<lambda>j. fs(tmp_path path \<mapsto> take j recs)) [0..<Suc written]
           in if written < length recs \<or> rename_fails env
              then (Some IOError, fs # writing @ [fs(tmp_path path := None)])
              else (None, fs # writing @ [(fs(tmp_path path := None))(path \<mapsto> recs)])))"

text \<open>
  Modelled from the spec: the engine's \<^verbatim>\<open>FromHostBytes\<close> and \<^verbatim>\<open>CopyInto\<close> (section 6):
  an in-place overwrite, identity preserved, only the contents change.
\<close>

definition FromHostBytes :: "bytes \<Rightarrow> int list \<Rightarrow> dtype \<Rightarrow> nat \<Rightarrow> var_tensor" where
  "FromHostBytes b sh dt dev =
     \<lparr> shape = sh, kind = dt, on_device = dev, trainable = False, contents = b \<rparr>"

definition CopyInto :: "var_tensor \<Rightarrow> var_tensor \<Rightarrow> var_tensor" where
  "CopyInto dst src = dst\<lparr> contents := contents src \<rparr>"

text \<open>
  Modelled from the spec: the two passes of \<^verbatim>\<open>Load\<close> (section 4.2). A record is in
  conflict when its name exists in the registry and the shapes differ; a record is
  applied by overwriting the contents of the entry of its name, and skipped when no
  entry has its name.
\<close>

definition shape_conflict :: "VarStore \<Rightarrow> archive_record \<Rightarrow> bool" where
  "shape_conflict S r =
     (case entry_of S (rec_name r) of
        None \<Rightarrow> False
      | Some (h, t) \<Rightarrow> shape t \<noteq> rec_shape r)"

definition overwrite :: "VarStore \<Rightarrow> archive_record \<Rightarrow> VarStore" where
  "overwrite S r =
     (case entry_of S (rec_name r) of
        None \<Rightarrow> S
      | Some (h, t) \<Rightarrow>
          S\<lparr> arena := (arena S)
                [h := CopyInto t (FromHostBytes (rec_payload r) (rec_shape r) (rec_dtype r)
                                    (store_device S))] \<rparr>)"

fun overwrite_all :: "VarStore \<Rightarrow> archive \<Rightarrow> VarStore" where
  "overwrite_all S [] = S"
| "overwrite_all S (r # rs) = overwrite_all (overwrite S r) rs"

definition Load_records :: "VarStore \<Rightarrow> archive \<Rightarrow> error option \<times> VarStore" where
  "Load_records S recs =
     (if list_ex (shape_conflict S) recs then (Some ShapeMismatchError, S)
      else (None, overwrite_all S recs))"

text \<open>
  Modelled from the spec: \<^verbatim>\<open>Load(path)\<close> of section 4.2 (its source is missing): read the
  full archive first (IOError if the file cannot be read), validate every record before
  mutating anything, then overwrite.
\<close>

definition Load :: "VarStore \<Rightarrow> filesystem \<Rightarrow> string \<Rightarrow> error option \<times> VarStore" where
  "Load S fs path =
     (case fs path of
        None \<Rightarrow> (Some IOError, S)
      | Some recs \<Rightarrow> Load_records S recs)"

section \<open>Properties of the batch iterator\<close>

lemma sint_word_of_int64:
  "- (2 ^ 63) \<le> z \<Longrightarrow> z < 2 ^ 63 \<Longrightarrow> sint (word_of_int z :: 64 word) = z"
  by (simp add: sint_sbintrunc' signed_take_bit_int_eq_self)

lemma sint_remaining:
  fixes t i b :: "64 word"
  assumes "- (2 ^ 63) \<le> sint t - sint i * sint b" "sint t - sint i * sint b < 2 ^ 63"
  shows "sint (t - i * b) = sint t - sint i * sint b"
proof -
  have "t - i * b = word_of_int (sint t - sint i * sint b)"
    by simp
  then show ?thesis
    using assms by (simp only: sint_word_of_int64)
qed

lemma nexts_stuck: "Next it = (None, it) \<Longrightarrow> nexts m it = (replicate m None, it)"
  by (induction m) simp_all

lemma Next_int:
  assumes "- (2 ^ 63) \<le> sint (totalSize it) - sint (batchIndex it) * sint (batchSize it)"
    and "sint (totalSize it) - sint (batchIndex it) * sint (batchSize it) < 2 ^ 63"
  shows "Next it =
    (let rem = sint (totalSize it) - sint (batchIndex it) * sint (batchSize it);
         start = batchIndex it * batchSize it;
         sz = (if rem < sint (batchSize it) then totalSize it - start else batchSize it)
     in if (if rem < sint (batchSize it) then rem \<le> 0 else sint (batchSize it) \<le> 0)
           \<or> (\<not> returnSmallLastBatch it \<and> rem < sint (batchSize it))
        then (None, it)
        else (Some \<lparr> Images = Idx (xs it) (NewNarrow start (start + sz)),
                      Labels = Idx (ys it) (NewNarrow start (start + sz)) \<rparr>,
              it\<lparr>batchIndex := batchIndex it + 1\<rparr>))"
  using sint_remaining[OF assms]
  by (simp add: Next_def Let_def word_sless_alt word_sle_eq)

lemma sint_of_nat64: "n < 2 ^ 63 \<Longrightarrow> sint (of_nat n :: 64 word) = int n"
  using sint_word_of_int64 [of "int n"] by simp

lemma pos_word_of_nat: "0 \<le>s (w :: 64 word) \<Longrightarrow> of_nat (nat (sint w)) = w"
  by (simp add: word_sle_eq)

lemma sint_nat_bound: "nat (sint (w :: 64 word)) < 2 ^ 63"
  using sint_lt [of w] by simp

lemma Next_nat:
  fixes it :: "'a Iter2"
  assumes pos: "0 <s batchSize it" and nonneg: "0 \<le>s totalSize it"
    and i: "batchIndex it = of_nat i" "i < 2 ^ 63"
    and lo: "i * batch_len it < total_len it + 2 ^ 63"
  shows "Next it =
    (if total_len it \<le> i * batch_len it
        \<or> (\<not> returnSmallLastBatch it \<and> total_len it < i * batch_len it + batch_len it)
     then (None, it)
     else (Some (batch it (i * batch_len it)
                  (if total_len it < i * batch_len it + batch_len it then total_len it
                   else i * batch_len it + batch_len it)),
           it\<lparr>batchIndex := of_nat (Suc i)\<rparr>))"
proof -
  define B where "B = batch_len it"
  define T where "T = total_len it"
  have Bpos: "0 < sint (batchSize it)" using pos by (simp add: word_sless_alt)
  have B: "sint (batchSize it) = int B" "batchSize it = of_nat B"
    using Bpos pos_word_of_nat [of "batchSize it"] by (simp_all add: B_def batch_len_def word_sle_eq)
  have T: "sint (totalSize it) = int T" "totalSize it = of_nat T"
    using nonneg pos_word_of_nat [of "totalSize it"] by (simp_all add: T_def total_len_def word_sle_eq)
  have Tb: "int T < 2 ^ 63" using sint_lt [of "totalSize it"] unfolding T(1) by simp
  have B0: "0 < B" using Bpos B by simp
  have I: "sint (batchIndex it) = int i"
    using i(2) by (simp add: i(1) sint_of_nat64)
  have lo': "int (i * B) < int T + 2 ^ 63"
  proof -
    from lo have "int (i * B) < int (T + 2 ^ 63)"
      unfolding B_def T_def by (simp only: of_nat_less_iff)
    then show ?thesis by simp
  qed
  have a: "- (2 ^ 63) \<le> sint (totalSize it) - sint (batchIndex it) * sint (batchSize it)"
    unfolding T(1) I B(1) using lo' by simp
  have b: "sint (totalSize it) - sint (batchIndex it) * sint (batchSize it) < 2 ^ 63"
  proof -
    have "0 \<le> int i * int B" by simp
    then show ?thesis unfolding T(1) I B(1) using Tb by linarith
  qed
  have c1: "(sint (totalSize it) - sint (batchIndex it) * sint (batchSize it) < sint (batchSize it))
      = (T < i * B + B)"
    unfolding T(1) I B(1) by (simp flip: of_nat_mult of_nat_add add: algebra_simps)
  have c2: "(sint (totalSize it) - sint (batchIndex it) * sint (batchSize it) \<le> 0) = (T \<le> i * B)"
    unfolding T(1) I B(1) by (simp flip: of_nat_mult)
  have c3: "(sint (batchSize it) \<le> 0) = False"
    using Bpos by simp
  have st: "batchIndex it * batchSize it = of_nat (i * B)"
    by (simp add: i(1) B(2))
  have en: "of_nat (i * B) + batchSize it = of_nat (i * B + B)"
    by (subst B(2)) simp
  have en2: "of_nat (i * B) + (totalSize it - of_nat (i * B)) = (of_nat T :: 64 word)"
    by (simp add: T(2))
  have su: "batchIndex it + 1 = of_nat (Suc i)"
    by (simp add: i(1))
  have imp: "T < i * B + B \<Longrightarrow> T \<le> i * B \<or> True" by simp
  show ?thesis
    apply (subst Next_int [OF a b])
    apply (simp only: Let_def c1 c2 c3 st su)
    apply (simp only: batch_def flip: B_def T_def)
    apply (cases "T < i * B + B")
     apply (simp_all only: if_True if_False en en2 simp_thms)
    using B0 apply auto
    done
qed

lemma total_len_bound: "total_len it < 2 ^ 63"
  unfolding total_len_def by (rule sint_nat_bound)

lemma batch_len_bound: "batch_len it < 2 ^ 63"
  unfolding batch_len_def by (rule sint_nat_bound)

lemma batch_len_pos: "0 <s batchSize it \<Longrightarrow> 0 < batch_len it"
  by (simp add: batch_len_def word_sless_alt)

lemma at_index [simp]:
  "batch_len (it\<lparr>batchIndex := w\<rparr>) = batch_len it"
  "total_len (it\<lparr>batchIndex := w\<rparr>) = total_len it"
  "batch (it\<lparr>batchIndex := w\<rparr>) = batch it"
  by (simp_all add: batch_len_def total_len_def batch_def fun_eq_iff)

lemma Next_nat_at:
  assumes "0 <s batchSize it" "0 \<le>s totalSize it"
    and "i < 2 ^ 63" "i * batch_len it < total_len it + 2 ^ 63"
  shows "Next (it\<lparr>batchIndex := of_nat i\<rparr>) =
    (if total_len it \<le> i * batch_len it
        \<or> (\<not> returnSmallLastBatch it \<and> total_len it < i * batch_len it + batch_len it)
     then (None, it\<lparr>batchIndex := of_nat i\<rparr>)
     else (Some (batch it (i * batch_len it)
                  (if total_len it < i * batch_len it + batch_len it then total_len it
                   else i * batch_len it + batch_len it)),
           it\<lparr>batchIndex := of_nat (Suc i)\<rparr>))"
  using Next_nat [of "it\<lparr>batchIndex := of_nat i\<rparr>" i] assms by simp

text \<open>The call at batch index \<open>i\<close>, for the three positions of \<open>i\<close>.\<close>

lemma Next_at_full:
  assumes "0 <s batchSize it" "0 \<le>s totalSize it"
    and "i * batch_len it + batch_len it \<le> total_len it"
  shows "Next (it\<lparr>batchIndex := of_nat i\<rparr>) =
    (Some (batch it (i * batch_len it) (i * batch_len it + batch_len it)),
     it\<lparr>batchIndex := of_nat (Suc i)\<rparr>)"
proof -
  have "0 < batch_len it" using assms(1) by (rule batch_len_pos)
  then have "i \<le> i * batch_len it" by simp
  with assms(3) total_len_bound [of it] have i: "i < 2 ^ 63" by linarith
  have lo: "i * batch_len it < total_len it + 2 ^ 63" using assms(3) by simp
  show ?thesis
    using Next_nat_at [OF assms(1,2) i lo] assms(3) \<open>0 < batch_len it\<close> by simp
qed

lemma Next_at_small:
  assumes "0 <s batchSize it" "0 \<le>s totalSize it"
    and "i * batch_len it < total_len it" "total_len it < i * batch_len it + batch_len it"
  shows "Next (it\<lparr>batchIndex := of_nat i\<rparr>) =
    (if returnSmallLastBatch it
     then (Some (batch it (i * batch_len it) (total_len it)), it\<lparr>batchIndex := of_nat (Suc i)\<rparr>)
     else (None, it\<lparr>batchIndex := of_nat i\<rparr>))"
proof -
  have "0 < batch_len it" using assms(1) by (rule batch_len_pos)
  then have "i \<le> i * batch_len it" by simp
  with assms(3) total_len_bound [of it] have i: "i < 2 ^ 63" by linarith
  have lo: "i * batch_len it < total_len it + 2 ^ 63" using assms(3) by simp
  show ?thesis
    using Next_nat_at [OF assms(1,2) i lo] assms(3,4) by simp
qed

lemma Next_at_end:
  assumes "0 <s batchSize it" "0 \<le>s totalSize it"
    and "total_len it \<le> i * batch_len it" "i * batch_len it < total_len it + batch_len it"
    and "i < 2 ^ 63"
  shows "Next (it\<lparr>batchIndex := of_nat i\<rparr>) = (None, it\<lparr>batchIndex := of_nat i\<rparr>)"
proof -
  have lo: "i * batch_len it < total_len it + 2 ^ 63"
    using assms(4) batch_len_bound [of it] by linarith
  show ?thesis
    using Next_nat_at [OF assms(1,2,5) lo] assms(3) by simp
qed

lemma nexts_append:
  "nexts (n + m) it = (case nexts n it of (rs, it') \<Rightarrow>
      (case nexts m it' of (rs', it'') \<Rightarrow> (rs @ rs', it'')))"
  by (induction n arbitrary: it) (simp_all split: prod.splits)

lemma nexts_full:
  assumes "0 <s batchSize it" "0 \<le>s totalSize it"
    and "i + n = total_len it div batch_len it"
  shows "nexts n (it\<lparr>batchIndex := of_nat i\<rparr>) =
    (map (\<lambda>k. Some (batch it (k * batch_len it) (k * batch_len it + batch_len it))) [i..<i + n],
     it\<lparr>batchIndex := of_nat (i + n)\<rparr>)"
  using assms(3)
proof (induction n arbitrary: i)
  case 0
  show ?case by simp
next
  case (Suc n)
  have "0 < batch_len it" using assms(1) by (rule batch_len_pos)
  have "Suc i \<le> total_len it div batch_len it" using Suc.prems by simp
  then have "Suc i * batch_len it \<le> total_len it"
    using \<open>0 < batch_len it\<close> by (simp add: less_eq_div_iff_mult_less_eq)
  then have le: "i * batch_len it + batch_len it \<le> total_len it" by (simp add: add.commute)
  have ih: "nexts n (it\<lparr>batchIndex := of_nat (Suc i)\<rparr>) =
    (map (\<lambda>k. Some (batch it (k * batch_len it) (k * batch_len it + batch_len it))) [Suc i..<Suc i + n],
     it\<lparr>batchIndex := of_nat (Suc i + n)\<rparr>)"
    using Suc.prems by (intro Suc.IH) simp
  show ?case
    by (simp only: nexts.simps Next_at_full [OF assms(1,2) le] ih prod.case)
       (simp add: upt_rec [of i])
qed

lemma nexts_then_stuck:
  assumes "nexts n it = (rs, it')" "Next it' = (None, it')"
  shows "nexts (n + m) it = (rs @ replicate m None, it')"
  using assms by (simp add: nexts_append nexts_stuck)

lemma nexts_no_small:
  assumes pos: "0 <s batchSize it" and nonneg: "0 \<le>s totalSize it"
    and fresh: "batchIndex it = 0"
    and stop: "\<not> returnSmallLastBatch it \<or> total_len it mod batch_len it = 0"
  shows "nexts (total_len it div batch_len it + m) it =
    (map (\<lambda>k. Some (batch it (k * batch_len it) (k * batch_len it + batch_len it)))
       [0..<total_len it div batch_len it] @ replicate m None,
     it\<lparr>batchIndex := of_nat (total_len it div batch_len it)\<rparr>)"
proof -
  define B where "B = batch_len it"
  define T where "T = total_len it"
  define q where "q = T div B"
  have B0: "0 < B" unfolding B_def using pos by (rule batch_len_pos)
  have it0: "it\<lparr>batchIndex := of_nat 0\<rparr> = it" using fresh by simp
  have run: "nexts q it =
    (map (\<lambda>k. Some (batch it (k * B) (k * B + B))) [0..<q], it\<lparr>batchIndex := of_nat q\<rparr>)"
    using nexts_full [OF pos nonneg, of 0 q] unfolding it0 by (simp add: q_def B_def T_def)
  have qT: "q * B \<le> T" unfolding q_def by simp
  have Tq: "T < q * B + B"
  proof -
    have "T mod B < B" using B0 by simp
    moreover have "q * B + T mod B = T" unfolding q_def by simp
    ultimately show ?thesis by linarith
  qed
  have "q \<le> q * B" using B0 by simp
  with qT total_len_bound [of it] have qb: "q < 2 ^ 63" unfolding T_def by linarith
  have halt: "Next (it\<lparr>batchIndex := of_nat q\<rparr>) = (None, it\<lparr>batchIndex := of_nat q\<rparr>)"
  proof (cases "T mod B = 0")
    case True
    then have "T = q * B" unfolding q_def by auto
    then show ?thesis
      using Next_at_end [OF pos nonneg, of q] qb B0 by (simp add: B_def T_def)
  next
    case False
    then have "q * B \<noteq> T" unfolding q_def by (metis mod_div_mult_eq add_cancel_right_left)
    with qT have lt: "q * B < T" by simp
    from False stop have "\<not> returnSmallLastBatch it" by (simp add: B_def T_def)
    then show ?thesis
      using Next_at_small [OF pos nonneg, of q] lt Tq by (simp add: B_def T_def)
  qed
  show ?thesis
    using nexts_then_stuck [OF run halt, of m] by (simp add: q_def B_def T_def)
qed

lemma nexts_small:
  assumes pos: "0 <s batchSize it" and nonneg: "0 \<le>s totalSize it"
    and fresh: "batchIndex it = 0"
    and small: "returnSmallLastBatch it" "total_len it mod batch_len it \<noteq> 0"
  shows "nexts (total_len it div batch_len it + 1 + m) it =
    (map (\<lambda>k. Some (batch it (k * batch_len it) (k * batch_len it + batch_len it)))
       [0..<total_len it div batch_len it]
     @ [Some (batch it (total_len it div batch_len it * batch_len it)
               (total_len it div batch_len it * batch_len it + total_len it mod batch_len it))]
     @ replicate m None,
     it\<lparr>batchIndex := of_nat (total_len it div batch_len it + 1)\<rparr>)"
proof -
  define B where "B = batch_len it"
  define T where "T = total_len it"
  define q where "q = T div B"
  have B0: "0 < B" unfolding B_def using pos by (rule batch_len_pos)
  have it0: "it\<lparr>batchIndex := of_nat 0\<rparr> = it" using fresh by simp
  have run: "nexts q it =
    (map (\<lambda>k. Some (batch it (k * B) (k * B + B))) [0..<q], it\<lparr>batchIndex := of_nat q\<rparr>)"
    using nexts_full [OF pos nonneg, of 0 q] unfolding it0 by (simp add: q_def B_def T_def)
  have qT: "q * B \<le> T" unfolding q_def by simp
  have Tq: "T < q * B + B"
  proof -
    have "T mod B < B" using B0 by simp
    moreover have "q * B + T mod B = T" unfolding q_def by simp
    ultimately show ?thesis by linarith
  qed
  have split: "q * B + T mod B = T" unfolding q_def by simp
  with small(2) have lt: "q * B < T" unfolding B_def T_def by linarith
  have "q \<le> q * B" using B0 by simp
  with lt total_len_bound [of it] have qb: "Suc q < 2 ^ 63" unfolding T_def by linarith
  have last: "Next (it\<lparr>batchIndex := of_nat q\<rparr>) =
      (Some (batch it (q * B) (q * B + T mod B)), it\<lparr>batchIndex := of_nat (Suc q)\<rparr>)"
    using Next_at_small [OF pos nonneg, of q] lt Tq small(1) unfolding split
    by (simp add: B_def T_def)
  have halt: "Next (it\<lparr>batchIndex := of_nat (Suc q)\<rparr>) = (None, it\<lparr>batchIndex := of_nat (Suc q)\<rparr>)"
    using Next_at_end [OF pos nonneg, of "Suc q"] lt Tq qb by (simp add: B_def T_def)
  have run1: "nexts (q + 1) it =
    (map (\<lambda>k. Some (batch it (k * B) (k * B + B))) [0..<q] @ [Some (batch it (q * B) (q * B + T mod B))],
     it\<lparr>batchIndex := of_nat (Suc q)\<rparr>)"
  proof -
    have one: "nexts (Suc 0) (it\<lparr>batchIndex := of_nat q\<rparr>) =
        ([Some (batch it (q * B) (q * B + T mod B))], it\<lparr>batchIndex := of_nat (Suc q)\<rparr>)"
      by (simp add: last)
    show ?thesis
      unfolding One_nat_def by (subst nexts_append) (simp only: run one prod.case)
  qed
  show ?thesis
    using nexts_then_stuck [OF run1 halt, of m] by (simp add: q_def B_def T_def)
qed

subsection \<open>Claims about the iterator\<close>

text \<open>
  Claim C9. For an iterator with \<^verbatim>\<open>batchSize > 0\<close>, a total size that is not negative and
  batch index 0: when \<^verbatim>\<open>returnSmallLastBatch\<close> is false, the first
  \<open>totalSize div batchSize\<close> calls of \<^verbatim>\<open>Next\<close> return the batches of \<open>batchSize\<close>
  consecutive indices, batch \<open>k\<close> covering \<open>k * batchSize\<close> up to
  \<open>k * batchSize + batchSize\<close>, and every later call returns \<^verbatim>\<open>ok = false\<close>, so the
  trailing \<open>totalSize mod batchSize\<close> indices are never returned. When the flag is true
  and \<open>totalSize mod batchSize\<close> is not zero, one more batch follows the full ones,
  covering the last \<open>totalSize mod batchSize\<close> indices, and every call after it returns
  \<^verbatim>\<open>ok = false\<close>. The natural numbers \<open>batch_len\<close> and \<open>total_len\<close> are the values of the
  two \<^verbatim>\<open>int64\<close> fields, and every index of a batch is below \<open>2 ^ 63\<close>: nothing wraps.
\<close>

theorem Next_yields_batches:
  fixes it :: "'a Iter2"
  assumes "batchIndex it = 0" and "0 <s batchSize it" and "0 \<le>s totalSize it"
  shows "int (batch_len it) = sint (batchSize it) \<and> int (total_len it) = sint (totalSize it)
    \<and> total_len it < 2 ^ 63
    \<and> (\<not> returnSmallLastBatch it \<longrightarrow>
          fst (nexts (total_len it div batch_len it + m) it) =
            map (\<lambda>k. Some (batch it (k * batch_len it) (k * batch_len it + batch_len it)))
              [0..<total_len it div batch_len it]
            @ replicate m None)
    \<and> (returnSmallLastBatch it \<and> total_len it mod batch_len it \<noteq> 0 \<longrightarrow>
          fst (nexts (total_len it div batch_len it + 1 + m) it) =
            map (\<lambda>k. Some (batch it (k * batch_len it) (k * batch_len it + batch_len it)))
              [0..<total_len it div batch_len it]
            @ [Some (batch it (total_len it div batch_len it * batch_len it)
                      (total_len it div batch_len it * batch_len it
                         + total_len it mod batch_len it))]
            @ replicate m None)"
proof -
  have "int (batch_len it) = sint (batchSize it)"
    using assms(2) by (simp add: batch_len_def word_sless_alt)
  moreover have "int (total_len it) = sint (totalSize it)"
    using assms(3) by (simp add: total_len_def word_sle_eq)
  moreover note total_len_bound [of it]
  moreover have "fst (nexts (total_len it div batch_len it + m) it) =
            map (\<lambda>k. Some (batch it (k * batch_len it) (k * batch_len it + batch_len it)))
              [0..<total_len it div batch_len it]
            @ replicate m None" if "\<not> returnSmallLastBatch it"
    using nexts_no_small [OF assms(2,3,1), of m] that by simp
  moreover have "fst (nexts (total_len it div batch_len it + 1 + m) it) =
            map (\<lambda>k. Some (batch it (k * batch_len it) (k * batch_len it + batch_len it)))
              [0..<total_len it div batch_len it]
            @ [Some (batch it (total_len it div batch_len it * batch_len it)
                      (total_len it div batch_len it * batch_len it
                         + total_len it mod batch_len it))]
            @ replicate m None"
    if "returnSmallLastBatch it" "total_len it mod batch_len it \<noteq> 0"
    using nexts_small [OF assms(2,3,1) that, of m] by simp
  ultimately show ?thesis by blast
qed

lemma ten_by_three_lens:
  "batch_len ten_by_three = 3" "total_len ten_by_three = 10"
  "batch_len (ReturnSmallLastBatch ten_by_three) = 3"
  "total_len (ReturnSmallLastBatch ten_by_three) = 10"
  by (simp_all add: batch_len_def total_len_def ten_by_three_def ReturnSmallLastBatch_def)

lemma small_numbers:
  "[0..<3] = [0, 1, 2]" "replicate 2 x = [x, x]"
  "(10::nat) div 3 = 3" "(10::nat) mod 3 = 1" "(3::nat) + 2 = 5" "(3::nat) + 1 + 2 = 6"
  by (simp_all add: upt_rec numeral_2_eq_2)

theorem Next_yields_batches_witness:
  "fst (nexts 5 ten_by_three) =
     [Some (batch ten_by_three 0 3), Some (batch ten_by_three 3 6),
      Some (batch ten_by_three 6 9), None, None]
   \<and> fst (nexts 6 (ReturnSmallLastBatch ten_by_three)) =
     [Some (batch (ReturnSmallLastBatch ten_by_three) 0 3),
      Some (batch (ReturnSmallLastBatch ten_by_three) 3 6),
      Some (batch (ReturnSmallLastBatch ten_by_three) 6 9),
      Some (batch (ReturnSmallLastBatch ten_by_three) 9 10), None, None]"
proof -
  have a: "batchIndex ten_by_three = 0" "0 <s batchSize ten_by_three"
    "0 \<le>s totalSize ten_by_three" "\<not> returnSmallLastBatch ten_by_three"
    by (simp_all add: ten_by_three_def word_sless_alt word_sle_eq)
  have b: "batchIndex (ReturnSmallLastBatch ten_by_three) = 0"
    "0 <s batchSize (ReturnSmallLastBatch ten_by_three)"
    "0 \<le>s totalSize (ReturnSmallLastBatch ten_by_three)"
    "returnSmallLastBatch (ReturnSmallLastBatch ten_by_three)"
    by (simp_all add: ten_by_three_def ReturnSmallLastBatch_def word_sless_alt word_sle_eq)
  have "fst (nexts (total_len ten_by_three div batch_len ten_by_three + 2) ten_by_three) =
      map (\<lambda>k. Some (batch ten_by_three (k * batch_len ten_by_three)
                       (k * batch_len ten_by_three + batch_len ten_by_three)))
        [0..<total_len ten_by_three div batch_len ten_by_three]
      @ replicate 2 None"
    using Next_yields_batches [OF a(1,2,3), of 2] a(4) by blast
  then have first: "fst (nexts 5 ten_by_three) =
     [Some (batch ten_by_three 0 3), Some (batch ten_by_three 3 6),
      Some (batch ten_by_three 6 9), None, None]"
    unfolding ten_by_three_lens small_numbers by simp
  have "total_len (ReturnSmallLastBatch ten_by_three)
          mod batch_len (ReturnSmallLastBatch ten_by_three) \<noteq> 0"
    unfolding ten_by_three_lens small_numbers by simp
  then have "fst (nexts (total_len (ReturnSmallLastBatch ten_by_three)
                     div batch_len (ReturnSmallLastBatch ten_by_three) + 1 + 2)
                (ReturnSmallLastBatch ten_by_three)) =
      map (\<lambda>k. Some (batch (ReturnSmallLastBatch ten_by_three)
                       (k * batch_len (ReturnSmallLastBatch ten_by_three))
                       (k * batch_len (ReturnSmallLastBatch ten_by_three)
                          + batch_len (ReturnSmallLastBatch ten_by_three))))
        [0..<total_len (ReturnSmallLastBatch ten_by_three)
               div batch_len (ReturnSmallLastBatch ten_by_three)]
      @ [Some (batch (ReturnSmallLastBatch ten_by_three)
                (total_len (ReturnSmallLastBatch ten_by_three)
                   div batch_len (ReturnSmallLastBatch ten_by_three)
                   * batch_len (ReturnSmallLastBatch ten_by_three))
                (total_len (ReturnSmallLastBatch ten_by_three)
                   div batch_len (ReturnSmallLastBatch ten_by_three)
                   * batch_len (ReturnSmallLastBatch ten_by_three)
                 + total_len (ReturnSmallLastBatch ten_by_three)
                     mod batch_len (ReturnSmallLastBatch ten_by_three)))]
      @ replicate 2 None"
    using Next_yields_batches [OF b(1,2,3), of 2] b(4) by blast
  then have second: "fst (nexts 6 (ReturnSmallLastBatch ten_by_three)) =
     [Some (batch (ReturnSmallLastBatch ten_by_three) 0 3),
      Some (batch (ReturnSmallLastBatch ten_by_three) 3 6),
      Some (batch (ReturnSmallLastBatch ten_by_three) 6 9),
      Some (batch (ReturnSmallLastBatch ten_by_three) 9 10), None, None]"
    unfolding ten_by_three_lens small_numbers by simp
  from first second show ?thesis ..
qed

text \<open>
  Claim C10. For two tensors that have a first dimension, \<^verbatim>\<open>NewIter2\<close> returns the error
  exactly when the first dimension of \<open>ys\<close> differs from the first dimension of \<open>xs\<close>;
  otherwise it returns an iterator whose total size is the first dimension of \<open>xs\<close>,
  whose batch index is 0, whose \<^verbatim>\<open>returnSmallLastBatch\<close> flag is false and whose batch
  size is the one requested.
\<close>

theorem NewIter2_error_iff:
  assumes "MustSize xs0 \<noteq> []" and "MustSize ys0 \<noteq> []"
  shows "(NewIter2 xs0 ys0 bs = Err \<longleftrightarrow> hd (MustSize ys0) \<noteq> hd (MustSize xs0))
    \<and> (hd (MustSize ys0) = hd (MustSize xs0) \<longrightarrow>
         (\<exists>it. NewIter2 xs0 ys0 bs = Ok it \<and> totalSize it = hd (MustSize xs0)
            \<and> batchIndex it = 0 \<and> \<not> returnSmallLastBatch it \<and> batchSize it = bs))"
  using assms by (cases "MustSize xs0"; cases "MustSize ys0") (simp_all add: NewIter2_def)

theorem NewIter2_error_iff_witness:
  "NewIter2 \<lparr>MustSize = [10, 2], payload = ()\<rparr> \<lparr>MustSize = [7], payload = ()\<rparr> 3 = Err
   \<and> (\<exists>it. NewIter2 \<lparr>MustSize = [10, 2], payload = ()\<rparr> \<lparr>MustSize = [10], payload = ()\<rparr> 3 = Ok it
         \<and> totalSize it = 10 \<and> batchIndex it = 0 \<and> \<not> returnSmallLastBatch it \<and> batchSize it = 3)"
  using NewIter2_error_iff [of "\<lparr>MustSize = [10, 2], payload = ()\<rparr>" "\<lparr>MustSize = [7], payload = ()\<rparr>" 3]
    NewIter2_error_iff [of "\<lparr>MustSize = [10, 2], payload = ()\<rparr>" "\<lparr>MustSize = [10], payload = ()\<rparr>" 3]
  by simp

text \<open>
  A tensor without dimensions has an empty size slice; indexing it with \<^verbatim>\<open>[0]\<close> panics,
  so the call returns neither the error nor an iterator.
\<close>

lemma NewIter2_no_dimension:
  "MustSize xs0 = [] \<Longrightarrow> NewIter2 xs0 ys0 bs = Panic"
  "MustSize ys0 = [] \<Longrightarrow> NewIter2 xs0 ys0 bs = Panic"
  by (simp_all add: NewIter2_def split: list.splits)

end
